theory Spec2Isabelle
  imports Complex_Main
begin

section \<open>The simulation driver of spyns (\<^verbatim>\<open>src/spyns/run.py\<close>)\<close>

text \<open>
  \<^verbatim>\<open>run.py\<close> holds the four driver functions \<^verbatim>\<open>simulation\<close>, \<^verbatim>\<open>pre_simulation\<close>,
  \<^verbatim>\<open>main_simulation\<close> and \<^verbatim>\<open>post_simulation\<close>. Everything they call lives in modules
  whose code is not part of the sources (\<^verbatim>\<open>spyns.lattice\<close>, \<^verbatim>\<open>spyns.data\<close>,
  \<^verbatim>\<open>spyns.sampling\<close>, \<^verbatim>\<open>spyns.model\<close>) or in numpy.

  The driver is embedded statement by statement. What it calls is embedded in two ways.
  The numerical work that no property below depends on (how the generator turns a seed
  into a stream, how the neighbour table is built, what one Metropolis trial does to a
  spin, how an observable is computed) is a parameter: a record of functions, so that
  every theorem holds for any implementation of them.
  What the properties do depend on (accumulators, the phase flag of a sweep, the
  checkpoint, the trace written to disk) is modelled from the specification, each
  definition saying so.

  Python floats are idealised as \<^typ>\<open>real\<close>; Python's unbounded integers are
  \<^typ>\<open>int\<close>, and a loop index, which is never negative, is a \<^typ>\<open>nat\<close>.
\<close>

subsection \<open>Exceptions\<close>

text \<open>
  The error taxonomy of the specification (section 7), and Python's own
  \<^verbatim>\<open>ZeroDivisionError\<close> for the divisions of \<^verbatim>\<open>post_simulation\<close>. A computation that can
  raise returns \<open>error + 'a\<close>, with \<open>Inl\<close> for the exception.
\<close>

datatype error =
    InvalidDimensionsError
  | NeighborhoodCoefficientMismatchError
  | InvalidTemperatureError
  | StateSizeMismatchError
  | NoSamplesRecordedError
  | ZeroDivisionError

text \<open>An exception raised while an expression is evaluated skips the rest of it.\<close>

definition try_with :: "error + 'a \<Rightarrow> ('a \<Rightarrow> error + 'b) \<Rightarrow> error + 'b" where
  "try_with r f = (case r of Inl e \<Rightarrow> Inl e | Inr x \<Rightarrow> f x)"

text \<open>
  A statement acts on the mutable objects it can reach (the state \<open>'\<sigma>\<close>) and either
  returns or raises; the state it leaves behind is kept in both cases. \<open>and_then\<close> is
  the sequencing of two statements: the second runs only if the first returned.
\<close>

definition and_then ::
  "('\<sigma> \<Rightarrow> (error + unit) \<times> '\<sigma>) \<Rightarrow> ('\<sigma> \<Rightarrow> (error + 'a) \<times> '\<sigma>) \<Rightarrow> '\<sigma> \<Rightarrow> (error + 'a) \<times> '\<sigma>" where
  "and_then f g s = (case f s of (Inl e, s') \<Rightarrow> (Inl e, s') | (Inr u, s') \<Rightarrow> g s')"

text \<open>\<^verbatim>\<open>for x in xs: body(x)\<close>: the loop stops at the first exception.\<close>

fun for_each :: "('a \<Rightarrow> '\<sigma> \<Rightarrow> (error + unit) \<times> '\<sigma>) \<Rightarrow> 'a list \<Rightarrow> '\<sigma> \<Rightarrow> (error + unit) \<times> '\<sigma>" where
  "for_each body [] s = (Inr (), s)"
| "for_each body (x # xs) s = and_then (body x) (for_each body xs) s"

text \<open>\<^verbatim>\<open>range(n)\<close> for a Python integer \<open>n\<close>: empty when \<open>n \<le> 0\<close>.\<close>

definition py_range :: "int \<Rightarrow> nat list" where
  "py_range n = [0..<nat n]"

text \<open>Python's true division of a float by an integer.\<close>

definition py_div :: "real \<Rightarrow> nat \<Rightarrow> error + real" where
  "py_div x n = (if n = 0 then Inl ZeroDivisionError else Inr (x / real n))"

subsection \<open>Data model\<close>

text \<open>
  Modelled from the spec: \<^verbatim>\<open>SimulationParameters\<close> of \<^verbatim>\<open>spyns.data\<close>, which is not in the
  sources. It has the fields that \<^verbatim>\<open>run.py\<close> reads (\<^verbatim>\<open>seed\<close>, \<^verbatim>\<open>dimensions\<close>,
  \<^verbatim>\<open>neighborhood\<close>, \<^verbatim>\<open>interaction_coefficients\<close>, \<^verbatim>\<open>equilibration_sweeps\<close>, \<^verbatim>\<open>sweeps\<close>) and the
  temperature that the sweep reads (sections 4.4 and 6). The neighbourhood rule is of a
  type \<open>'n\<close> left open.
\<close>

record 'n simulation_parameters =
  dimensions :: "int list"
  neighborhood :: 'n
  interaction_coefficients :: "real list"
  temperature :: real
  seed :: int
  equilibration_sweeps :: int
  sweeps :: int

text \<open>
  Modelled from the spec: the lattice of \<^verbatim>\<open>spyns.lattice\<close> (section 3), which is not in
  the sources: its dimensions, its number of sites (the attribute \<^verbatim>\<open>number_sites\<close> that
  \<^verbatim>\<open>post_simulation\<close> reads), the neighbour table and the coupling coefficients. It is
  immutable after construction.
\<close>

record lattice =
  lattice_dimensions :: "int list"
  number_sites :: nat
  neighbor_table :: "nat list list"
  lattice_coefficients :: "real list"

text \<open>
  Modelled from the spec: the estimator accumulator of \<^verbatim>\<open>spyns.data\<close> (section 3 and
  section 4.5), which is not in the sources. An accumulator holds a first-moment total
  (the sum of the recorded samples) and the count of recorded samples.
\<close>

record accumulator =
  acc_total :: real
  acc_count :: nat

definition empty_accumulator :: accumulator where
  "empty_accumulator = \<lparr>acc_total = 0, acc_count = 0\<rparr>"

text \<open>
  Modelled from the spec: \<^verbatim>\<open>record(observable_name, value)\<close> (section 4.5) "appends value
  to the running total and increments the sample count".
\<close>

definition record_value :: "real \<Rightarrow> accumulator \<Rightarrow> accumulator" where
  "record_value v a = a\<lparr>acc_total := acc_total a + v, acc_count := Suc (acc_count a)\<rparr>"

text \<open>
  Modelled from the spec: \<^verbatim>\<open>moment(observable_name)\<close> (section 4.5) "returns total / count,
  failing with NoSamplesRecordedError if count is zero".
\<close>

definition moment :: "accumulator \<Rightarrow> error + real" where
  "moment a =
     (if acc_count a = 0 then Inl NoSamplesRecordedError
      else Inr (acc_total a / real (acc_count a)))"

text \<open>
  The four named observables (section 4.5); \<open>empty_estimators\<close> is their state when no
  sample has been recorded.
\<close>

record estimators =
  energy :: accumulator
  magnetization :: accumulator
  magnetization_even_sites :: accumulator
  magnetization_odd_sites :: accumulator

definition empty_estimators :: estimators where
  "empty_estimators =
     \<lparr>energy = empty_accumulator, magnetization = empty_accumulator,
      magnetization_even_sites = empty_accumulator,
      magnetization_odd_sites = empty_accumulator\<rparr>"

text \<open>
  Modelled from the spec: the attributes \<^verbatim>\<open>energy_1st_moment\<close>, \<^verbatim>\<open>magnetization_1st_moment\<close>,
  \<^verbatim>\<open>magnetization_even_sites_1st_moment\<close> and \<^verbatim>\<open>magnetization_odd_sites_1st_moment\<close> that
  \<^verbatim>\<open>post_simulation\<close> reads from \<^verbatim>\<open>data.estimators\<close> are the moments of the four
  accumulators.
\<close>

definition energy_1st_moment :: "estimators \<Rightarrow> error + real" where
  "energy_1st_moment est = moment (energy est)"

definition magnetization_1st_moment :: "estimators \<Rightarrow> error + real" where
  "magnetization_1st_moment est = moment (magnetization est)"

definition magnetization_even_sites_1st_moment :: "estimators \<Rightarrow> error + real" where
  "magnetization_even_sites_1st_moment est = moment (magnetization_even_sites est)"

definition magnetization_odd_sites_1st_moment :: "estimators \<Rightarrow> error + real" where
  "magnetization_odd_sites_1st_moment est = moment (magnetization_odd_sites est)"

text \<open>
  Modelled from the spec: \<^verbatim>\<open>SimulationData\<close> of \<^verbatim>\<open>spyns.data\<close>, which is not in the
  sources: the container that \<^verbatim>\<open>simulation\<close> creates, passes by reference to every phase
  and returns. It holds the parameters (\<^verbatim>\<open>data.parameters\<close>), the spin state, the
  estimators (\<^verbatim>\<open>data.estimators\<close>) and the trace/history store, which receives the
  full-state checkpoints (section 4.6), oldest first. The spin state is of a type \<open>'s\<close>
  left open.
\<close>

record ('n, 's) simulation_data =
  parameters :: "'n simulation_parameters"
  state :: 's
  estimators :: estimators
  history :: "'s list"

subsection \<open>The world outside the container\<close>

text \<open>
  The calls that \<^verbatim>\<open>run.py\<close> makes, with the arguments that tell one call from another:
  the seed, the sweep index and phase flag of a sweep, the text and value of a printed
  line.
\<close>

datatype call =
    Call_seed int
  | Call_BinaryLattice
  | Call_sample_random_state
  | Call_setup_containers
  | Call_sweep_grid nat bool
  | Call_ising_save_full_state
  | Call_write_trace_to_disk
  | Call_print string real

text \<open>
  The process-wide state: numpy's global generator (its state is of a type \<open>'r\<close> left
  open), the traces written to disk (one entry per write) and the log of the calls made
  so far, in order. A call is logged when it is entered, so a call that raises is in the
  log too.
\<close>

record ('s, 'r) world =
  generator :: 'r
  disk :: "'s list list"
  calls :: "call list"

definition log_call :: "call \<Rightarrow> ('s, 'r) world \<Rightarrow> ('s, 'r) world" where
  "log_call c w = w\<lparr>calls := calls w @ [c]\<rparr>"

subsection \<open>The numerical collaborators, as parameters\<close>

text \<open>
  \<^item> \<open>seeded_generator\<close>: the generator state that \<^verbatim>\<open>np.random.seed(seed)\<close> installs;
  \<^item> \<open>construct_lattice\<close>: the lattice topology builder (section 4.1), which fails
    with a configuration error on invalid input;
  \<^item> \<open>draw_random_state\<close>: the state sampler (section 4.2), drawing from the generator;
  \<^item> \<open>metropolis_trial\<close>: one single-spin-flip trial at a site (section 4.4), at a
    temperature, acting on the spin state and the generator;
  \<^item> \<open>total_energy\<close>, \<open>total_magnetization\<close>, \<open>sublattice_magnetization\<close>: the observables
    (section 4.3); the flag of the last one is true for the even sites.
\<close>

record ('n, 's, 'r) collaborators =
  seeded_generator :: "int \<Rightarrow> 'r"
  construct_lattice :: "int list \<Rightarrow> 'n \<Rightarrow> real list \<Rightarrow> error + lattice"
  draw_random_state :: "lattice \<Rightarrow> 'r \<Rightarrow> 's \<times> 'r"
  metropolis_trial :: "lattice \<Rightarrow> real \<Rightarrow> nat \<Rightarrow> 's \<times> 'r \<Rightarrow> (error + unit) \<times> ('s \<times> 'r)"
  total_energy :: "lattice \<Rightarrow> 's \<Rightarrow> error + real"
  total_magnetization :: "'s \<Rightarrow> error + real"
  sublattice_magnetization :: "lattice \<Rightarrow> 's \<Rightarrow> bool \<Rightarrow> error + real"

subsection \<open>What the driver calls\<close>

text \<open>\<^verbatim>\<open>np.random.seed(seed)\<close> replaces the state of the global generator.\<close>

definition np_random_seed ::
  "('n, 's, 'r) collaborators \<Rightarrow> int \<Rightarrow> ('s, 'r) world \<Rightarrow> ('s, 'r) world" where
  "np_random_seed env s w = (log_call (Call_seed s) w)\<lparr>generator := seeded_generator env s\<rparr>"

text \<open>
  \<^verbatim>\<open>BinaryLattice(dimensions, neighborhood, interaction_coefficients)\<close>: the constructor
  returns the lattice or raises; it draws nothing from the generator (section 4.1: no side
  effects).
\<close>

definition BinaryLattice ::
  "('n, 's, 'r) collaborators \<Rightarrow> int list \<Rightarrow> 'n \<Rightarrow> real list \<Rightarrow> ('s, 'r) world \<Rightarrow>
     (error + lattice) \<times> ('s, 'r) world" where
  "BinaryLattice env dims nb coeffs w =
     (construct_lattice env dims nb coeffs, log_call Call_BinaryLattice w)"

text \<open>\<^verbatim>\<open>lattice.sample_random_state()\<close> draws from the global generator.\<close>

definition sample_random_state ::
  "('n, 's, 'r) collaborators \<Rightarrow> lattice \<Rightarrow> ('s, 'r) world \<Rightarrow> 's \<times> ('s, 'r) world" where
  "sample_random_state env lat w =
     (case draw_random_state env lat (generator w) of
        (st, g) \<Rightarrow> (st, (log_call Call_sample_random_state w)\<lparr>generator := g\<rparr>))"

text \<open>
  Modelled from the spec: \<^verbatim>\<open>spyns.data.setup_containers(parameters, state)\<close>, which is not
  in the sources. The new container holds the parameters and the initial state; no sample
  has been recorded (every total is the empty sum and every count is zero, section 3) and
  no checkpoint has been taken.
\<close>

definition setup_containers ::
  "'n simulation_parameters \<Rightarrow> 's \<Rightarrow> ('s, 'r) world \<Rightarrow> ('n, 's) simulation_data \<times> ('s, 'r) world" where
  "setup_containers p st w =
     (\<lparr>parameters = p, state = st, estimators = empty_estimators, history = []\<rparr>,
      log_call Call_setup_containers w)"

text \<open>
  Modelled from the spec: \<^verbatim>\<open>spyns.sampling.sweep_grid(lattice, data, sweep_index,
  equilibration_run)\<close> (section 4.4), which is not in the sources. A non-positive
  temperature fails at the start of the sweep. The sweep performs one trial per site, in
  linear index order, mutating the state in place and drawing from the generator; a trial
  that raises leaves the state as far as the sweep got. Then, "if equilibration_run is
  false", the four observables are computed once and each is appended to its accumulator;
  "if equilibration_run is true, no accumulation occurs".
\<close>

definition sweep_grid ::
  "('n, 's, 'r) collaborators \<Rightarrow> lattice \<Rightarrow> nat \<Rightarrow> bool \<Rightarrow>
     ('n, 's) simulation_data \<times> ('s, 'r) world \<Rightarrow>
     (error + unit) \<times> (('n, 's) simulation_data \<times> ('s, 'r) world)" where
  "sweep_grid env lat sweep_index equilibration_run s =
     (case s of (data, w) \<Rightarrow>
        let w0 = log_call (Call_sweep_grid sweep_index equilibration_run) w;
            T = temperature (parameters data)
        in if T \<le> 0 then (Inl InvalidTemperatureError, (data, w0))
           else
             (case for_each (metropolis_trial env lat T) [0..<number_sites lat]
                     (state data, generator w0) of
                (r, (st, g)) \<Rightarrow>
                  let data1 = data\<lparr>state := st\<rparr>; w1 = w0\<lparr>generator := g\<rparr> in
                  (case r of
                     Inl e \<Rightarrow> (Inl e, (data1, w1))
                   | Inr u \<Rightarrow>
                       if equilibration_run then (Inr (), (data1, w1))
                       else
                         (case try_with (total_energy env lat st) (\<lambda>e.
                               try_with (total_magnetization env st) (\<lambda>m.
                               try_with (sublattice_magnetization env lat st True) (\<lambda>me.
                               try_with (sublattice_magnetization env lat st False) (\<lambda>mo.
                               Inr \<lparr>energy = record_value e (energy (estimators data1)),
                                    magnetization =
                                      record_value m (magnetization (estimators data1)),
                                    magnetization_even_sites =
                                      record_value me (magnetization_even_sites (estimators data1)),
                                    magnetization_odd_sites =
                                      record_value mo (magnetization_odd_sites (estimators data1))\<rparr>))))
                          of
                            Inl e \<Rightarrow> (Inl e, (data1, w1))
                          | Inr est \<Rightarrow> (Inr (), (data1\<lparr>estimators := est\<rparr>, w1))))))"

text \<open>
  Modelled from the spec: \<^verbatim>\<open>spyns.model.ising_save_full_state(lattice, data)\<close> (section
  4.6), which is not in the sources: "the current spin state is snapshotted (deep-copied)
  into the trace/history store".
\<close>

definition ising_save_full_state ::
  "lattice \<Rightarrow> ('n, 's) simulation_data \<times> ('s, 'r) world \<Rightarrow> ('n, 's) simulation_data \<times> ('s, 'r) world" where
  "ising_save_full_state lat s =
     (case s of (data, w) \<Rightarrow>
        (data\<lparr>history := history data @ [state data]\<rparr>, log_call Call_ising_save_full_state w))"

text \<open>
  Modelled from the spec: \<^verbatim>\<open>spyns.data.write_trace_to_disk(data)\<close>, which is not in the
  sources. Persistence is a boundary service (sections 1 and 6) that receives the
  trace/history store; the container is "read-only thereafter for reporting" (section 3).
\<close>

definition write_trace_to_disk ::
  "('n, 's) simulation_data \<times> ('s, 'r) world \<Rightarrow> ('n, 's) simulation_data \<times> ('s, 'r) world" where
  "write_trace_to_disk s =
     (case s of (data, w) \<Rightarrow>
        (data, (log_call Call_write_trace_to_disk w)\<lparr>disk := disk w @ [history data]\<rparr>))"

text \<open>\<^verbatim>\<open>print(f"<text>{value}")\<close>.\<close>

definition print_line ::
  "string \<Rightarrow> real \<Rightarrow> ('n, 's) simulation_data \<times> ('s, 'r) world \<Rightarrow> ('n, 's) simulation_data \<times> ('s, 'r) world" where
  "print_line txt v s = (case s of (data, w) \<Rightarrow> (data, log_call (Call_print txt v) w))"

subsection \<open>The driver\<close>

text \<open>\<^verbatim>\<open>pre_simulation\<close> (lines 44 to 59): the equilibration sweeps.\<close>

definition pre_simulation ::
  "('n, 's, 'r) collaborators \<Rightarrow> lattice \<Rightarrow> ('n, 's) simulation_data \<times> ('s, 'r) world \<Rightarrow>
     (error + unit) \<times> (('n, 's) simulation_data \<times> ('s, 'r) world)" where
  "pre_simulation env lat s =
     for_each (\<lambda>sweep_index. sweep_grid env lat sweep_index True)
       (py_range (equilibration_sweeps (parameters (fst s)))) s"

text \<open>\<^verbatim>\<open>main_simulation\<close> (lines 62 to 78): the checkpoint, then the production sweeps.\<close>

definition main_simulation ::
  "('n, 's, 'r) collaborators \<Rightarrow> lattice \<Rightarrow> ('n, 's) simulation_data \<times> ('s, 'r) world \<Rightarrow>
     (error + unit) \<times> (('n, 's) simulation_data \<times> ('s, 'r) world)" where
  "main_simulation env lat s =
     (let s1 = ising_save_full_state lat s in
      for_each (\<lambda>sweep_index. sweep_grid env lat sweep_index False)
        (py_range (sweeps (parameters (fst s1)))) s1)"

text \<open>
  \<^verbatim>\<open>post_simulation\<close> (lines 81 to 102): the trace is written, the three reported values
  are computed in the order of the source (each moment is read before its division, the
  even-sites moment before the odd-sites one), then the three lines are printed.
\<close>

definition post_simulation ::
  "lattice \<Rightarrow> ('n, 's) simulation_data \<times> ('s, 'r) world \<Rightarrow>
     (error + unit) \<times> (('n, 's) simulation_data \<times> ('s, 'r) world)" where
  "post_simulation lat s =
     (let s1 = write_trace_to_disk s;
          est = estimators (fst s1);
          n = number_sites lat
      in case try_with (energy_1st_moment est) (\<lambda>e. py_div e n) of
           Inl err \<Rightarrow> (Inl err, s1)
         | Inr average_energy \<Rightarrow>
        (case try_with (magnetization_1st_moment est) (\<lambda>m. py_div m n) of
           Inl err \<Rightarrow> (Inl err, s1)
         | Inr fm_order_parameter \<Rightarrow>
        (case try_with (magnetization_even_sites_1st_moment est) (\<lambda>me.
              try_with (magnetization_odd_sites_1st_moment est) (\<lambda>mo.
              py_div (me - mo) n)) of
           Inl err \<Rightarrow> (Inl err, s1)
         | Inr afm_order_parameter \<Rightarrow>
             (Inr (),
              print_line ''AFM order parameter = '' afm_order_parameter
                (print_line ''FM order parameter = '' fm_order_parameter
                  (print_line ''Average energy = '' average_energy s1))))))"

text \<open>
  \<^verbatim>\<open>simulation\<close> (lines 10 to 41). The container is created inside and returned; when a
  phase raises, the exception leaves \<^verbatim>\<open>simulation\<close> and only the world remains.
\<close>

definition simulation ::
  "('n, 's, 'r) collaborators \<Rightarrow> 'n simulation_parameters \<Rightarrow> ('s, 'r) world \<Rightarrow>
     (error + ('n, 's) simulation_data) \<times> ('s, 'r) world" where
  "simulation env p w =
     (let w1 = np_random_seed env (seed p) w in
      case BinaryLattice env (dimensions p) (neighborhood p) (interaction_coefficients p) w1 of
        (Inl e, w2) \<Rightarrow> (Inl e, w2)
      | (Inr lat, w2) \<Rightarrow>
          (case sample_random_state env lat w2 of
             (st, w3) \<Rightarrow>
               (case and_then (pre_simulation env lat)
                       (and_then (main_simulation env lat) (post_simulation lat))
                       (setup_containers p st w3) of
                  (Inl e, (data, w4)) \<Rightarrow> (Inl e, w4)
                | (Inr u, (data, w4)) \<Rightarrow> (Inr data, w4))))"

subsection \<open>Observations on a run\<close>

text \<open>
  The calls that one invocation of \<^verbatim>\<open>simulation\<close> adds to the log: the log it leaves,
  without the entries that were there before.
\<close>

definition calls_made ::
  "('n, 's, 'r) collaborators \<Rightarrow> 'n simulation_parameters \<Rightarrow> ('s, 'r) world \<Rightarrow> call list" where
  "calls_made env p w = drop (length (calls w)) (calls (snd (simulation env p w)))"

text \<open>The lines printed, in order.\<close>

fun printed :: "call list \<Rightarrow> (string \<times> real) list" where
  "printed [] = []"
| "printed (Call_print txt v # cs) = (txt, v) # printed cs"
| "printed (c # cs) = printed cs"

text \<open>The calls of \<^verbatim>\<open>sweep_grid\<close> in a log, in order.\<close>

fun is_sweep :: "call \<Rightarrow> bool" where
  "is_sweep (Call_sweep_grid i b) = True"
| "is_sweep c = False"

definition sweep_calls :: "call list \<Rightarrow> call list" where
  "sweep_calls cs = filter is_sweep cs"

text \<open>
  The \<^verbatim>\<open>sweep_index\<close> arguments of the calls of \<^verbatim>\<open>sweep_grid\<close> whose \<^verbatim>\<open>equilibration_run\<close>
  flag is \<open>b\<close>, in order.
\<close>

fun sweep_indices :: "bool \<Rightarrow> call list \<Rightarrow> nat list" where
  "sweep_indices b [] = []"
| "sweep_indices b (Call_sweep_grid i b' # cs) =
     (if b' = b then i # sweep_indices b cs else sweep_indices b cs)"
| "sweep_indices b (c # cs) = sweep_indices b cs"

text \<open>The sample counts of the four accumulators.\<close>

definition sample_counts :: "estimators \<Rightarrow> nat list" where
  "sample_counts est =
     [acc_count (energy est), acc_count (magnetization est),
      acc_count (magnetization_even_sites est), acc_count (magnetization_odd_sites est)]"

text \<open>
  The container and the world with which \<^verbatim>\<open>simulation\<close> enters \<^verbatim>\<open>pre_simulation\<close>, once
  the lattice \<open>lat\<close> has been constructed (lines 16 to 26).
\<close>

definition before_equilibration ::
  "('n, 's, 'r) collaborators \<Rightarrow> 'n simulation_parameters \<Rightarrow> lattice \<Rightarrow> ('s, 'r) world \<Rightarrow>
     ('n, 's) simulation_data \<times> ('s, 'r) world" where
  "before_equilibration env p lat w =
     (case sample_random_state env lat
             (log_call Call_BinaryLattice (np_random_seed env (seed p) w)) of
        (st, w3) \<Rightarrow> setup_containers p st w3)"

subsection \<open>A concrete instance\<close>

text \<open>
  A small deterministic instance of the collaborators, on which the driver can be run:
  a one-dimensional periodic ring with two neighbours per site, the spins stored as a list
  of integers, a generator that counts its draws, an initial state of all spins up, a
  trial that always flips (every draw accepts), the energy computed from the neighbour
  table and the couplings and halved (section 4.3), and the magnetisations by position
  parity.
\<close>

definition example_collaborators :: "(unit, int list, nat) collaborators" where
  "example_collaborators =
     \<lparr>seeded_generator = (\<lambda>s. nat s),
      construct_lattice = (\<lambda>dims nb coeffs.
        case dims of
          [n] \<Rightarrow>
            if n < 1 then Inl InvalidDimensionsError
            else if length coeffs \<noteq> 2 then Inl NeighborhoodCoefficientMismatchError
            else Inr \<lparr>lattice_dimensions = dims, number_sites = nat n,
                      neighbor_table =
                        map (\<lambda>i. [(i + nat n - 1) mod nat n, (i + 1) mod nat n]) [0..<nat n],
                      lattice_coefficients = coeffs\<rparr>
        | _ \<Rightarrow> Inl InvalidDimensionsError),
      draw_random_state = (\<lambda>lat g. (map (\<lambda>i. 1) [0..<number_sites lat], g + number_sites lat)),
      metropolis_trial = (\<lambda>lat T i (st, g).
        if length st \<noteq> number_sites lat then (Inl StateSizeMismatchError, (st, g))
        else (Inr (), (st[i := - (st ! i)], Suc g))),
      total_energy = (\<lambda>lat st.
        if length st \<noteq> number_sites lat then Inl StateSizeMismatchError
        else Inr (sum_list (map (\<lambda>i.
               - real_of_int (st ! i)
                 * sum_list (map2 (\<lambda>c j. c * real_of_int (st ! j))
                     (lattice_coefficients lat) (neighbor_table lat ! i)))
               [0..<number_sites lat]) / 2)),
      total_magnetization = (\<lambda>st. Inr (real_of_int (sum_list st))),
      sublattice_magnetization = (\<lambda>lat st even_sites.
        if length st \<noteq> number_sites lat then Inl StateSizeMismatchError
        else Inr (real_of_int (sum_list
          (map snd (filter (\<lambda>(i, x). even i = even_sites) (enumerate 0 st))))))\<rparr>"

text \<open>A ring of four sites at temperature 2, with the given numbers of sweeps.\<close>

definition example_parameters :: "int \<Rightarrow> int \<Rightarrow> unit simulation_parameters" where
  "example_parameters n_equilibration n_sweeps =
     \<lparr>dimensions = [4], neighborhood = (), interaction_coefficients = [1, 1],
      temperature = 2, seed = 7, equilibration_sweeps = n_equilibration, sweeps = n_sweeps\<rparr>"

definition example_lattice :: lattice where
  "example_lattice =
     \<lparr>lattice_dimensions = [4], number_sites = 4,
      neighbor_table = [[3, 1], [0, 2], [1, 3], [2, 0]], lattice_coefficients = [1, 1]\<rparr>"

definition example_world :: "(int list, nat) world" where
  "example_world = \<lparr>generator = 0, disk = [], calls = []\<rparr>"

text \<open>
  The container that the example run with no equilibration sweep and one production sweep
  returns.
\<close>

definition example_data :: "(unit, int list) simulation_data" where
  "example_data =
     \<lparr>parameters = example_parameters 0 1, state = [- 1, - 1, - 1, - 1],
      estimators =
        \<lparr>energy = \<lparr>acc_total = - 4, acc_count = 1\<rparr>,
         magnetization = \<lparr>acc_total = - 4, acc_count = 1\<rparr>,
         magnetization_even_sites = \<lparr>acc_total = - 2, acc_count = 1\<rparr>,
         magnetization_odd_sites = \<lparr>acc_total = - 2, acc_count = 1\<rparr>\<rparr>,
      history = [[1, 1, 1, 1]]\<rparr>"

section \<open>Properties\<close>

subsection \<open>What a sweep and a loop of sweeps change\<close>

lemmas moment_defs = energy_1st_moment_def magnetization_1st_moment_def
  magnetization_even_sites_1st_moment_def magnetization_odd_sites_1st_moment_def moment_def

lemma sweep_grid_frame:
  assumes "sweep_grid env lat i b (data, w) = (r, (data', w'))"
  shows "calls w' = calls w @ [Call_sweep_grid i b]"
    and "disk w' = disk w"
    and "parameters data' = parameters data"
    and "history data' = history data"
  using assms
  by (auto simp: sweep_grid_def log_call_def Let_def split: prod.splits sum.splits if_splits)

lemma sweep_grid_equilibration:
  assumes "sweep_grid env lat i True (data, w) = (r, (data', w'))"
  shows "estimators data' = estimators data"
  using assms
  by (auto simp: sweep_grid_def log_call_def Let_def split: prod.splits sum.splits if_splits)

lemma sweep_grid_production:
  assumes "sweep_grid env lat i False (data, w) = (Inr u, (data', w'))"
  shows "\<exists>E M Me Mo.
      total_energy env lat (state data') = Inr E \<and>
      total_magnetization env (state data') = Inr M \<and>
      sublattice_magnetization env lat (state data') True = Inr Me \<and>
      sublattice_magnetization env lat (state data') False = Inr Mo \<and>
      estimators data' =
        \<lparr>energy = record_value E (energy (estimators data)),
         magnetization = record_value M (magnetization (estimators data)),
         magnetization_even_sites = record_value Me (magnetization_even_sites (estimators data)),
         magnetization_odd_sites = record_value Mo (magnetization_odd_sites (estimators data))\<rparr>"
  using assms
  by (auto simp: sweep_grid_def log_call_def Let_def try_with_def
      split: prod.splits sum.splits if_splits)

lemma sweep_grid_det:
  assumes "generator w1 = generator w2"
    and "sweep_grid env lat i b (d, w1) = (r, (d', w1'))"
  shows "\<exists>w2'. sweep_grid env lat i b (d, w2) = (r, (d', w2')) \<and> generator w2' = generator w1'"
  using assms
  by (auto simp: sweep_grid_def log_call_def Let_def split: prod.splits sum.splits if_splits)

text \<open>
  The loops are handled by induction on the list of indices, with the container and the
  world generalised; each step splits on whether the sweep returned.
\<close>

lemma for_each_sweeps_frame:
  "for_each (\<lambda>i. sweep_grid env lat i b) xs (data, w) = (r, (data', w')) \<Longrightarrow>
     disk w' = disk w \<and> parameters data' = parameters data \<and> history data' = history data"
proof (induction xs arbitrary: data w)
  case Nil
  then show ?case by simp
next
  case (Cons x xs)
  obtain r1 d1 w1 where s: "sweep_grid env lat x b (data, w) = (r1, (d1, w1))"
    by (metis prod.exhaust)
  show ?case
  proof (cases r1)
    case (Inl e)
    with Cons.prems s show ?thesis
      using sweep_grid_frame[OF s] by (simp add: and_then_def)
  next
    case (Inr u)
    with Cons.prems s have "for_each (\<lambda>i. sweep_grid env lat i b) xs (d1, w1) = (r, (data', w'))"
      by (simp add: and_then_def)
    from Cons.IH[OF this] sweep_grid_frame[OF s] show ?thesis by simp
  qed
qed

lemma for_each_sweeps_calls:
  "for_each (\<lambda>i. sweep_grid env lat i b) xs (data, w) = (r, (data', w')) \<Longrightarrow>
     \<exists>k\<le>length xs. calls w' = calls w @ map (\<lambda>i. Call_sweep_grid i b) (take k xs)
        \<and> (case r of Inr u \<Rightarrow> k = length xs | Inl e \<Rightarrow> True)"
proof (induction xs arbitrary: data w)
  case Nil
  then show ?case by auto
next
  case (Cons x xs)
  obtain r1 d1 w1 where s: "sweep_grid env lat x b (data, w) = (r1, (d1, w1))"
    by (metis prod.exhaust)
  show ?case
  proof (cases r1)
    case (Inl e)
    with Cons.prems s have "r = Inl e" "w' = w1" by (simp_all add: and_then_def)
    with sweep_grid_frame(1)[OF s] show ?thesis
      by (intro exI[of _ "Suc 0"]) simp
  next
    case (Inr u)
    with Cons.prems s have "for_each (\<lambda>i. sweep_grid env lat i b) xs (d1, w1) = (r, (data', w'))"
      by (simp add: and_then_def)
    from Cons.IH[OF this] obtain k where k: "k \<le> length xs"
      "calls w' = calls w1 @ map (\<lambda>i. Call_sweep_grid i b) (take k xs)"
      "(case r of Inr u \<Rightarrow> k = length xs | Inl e \<Rightarrow> True)" by blast
    with sweep_grid_frame(1)[OF s] show ?thesis
      by (intro exI[of _ "Suc k"]) (auto split: sum.splits)
  qed
qed

lemma for_each_sweeps_det:
  "generator w1 = generator w2 \<Longrightarrow>
   for_each (\<lambda>i. sweep_grid env lat i b) xs (d, w1) = (r, (d', w1')) \<Longrightarrow>
   \<exists>w2'. for_each (\<lambda>i. sweep_grid env lat i b) xs (d, w2) = (r, (d', w2'))
      \<and> generator w2' = generator w1'"
proof (induction xs arbitrary: d w1 w2)
  case Nil
  then show ?case by auto
next
  case (Cons x xs)
  obtain r1 d1 v1 where s: "sweep_grid env lat x b (d, w1) = (r1, (d1, v1))"
    by (metis prod.exhaust)
  from sweep_grid_det[OF Cons.prems(1) s] obtain v2 where
    s2: "sweep_grid env lat x b (d, w2) = (r1, (d1, v2))" and g: "generator v2 = generator v1"
    by blast
  show ?case
  proof (cases r1)
    case (Inl e)
    with Cons.prems(2) s s2 g show ?thesis by (auto simp: and_then_def)
  next
    case (Inr u)
    with Cons.prems(2) s have "for_each (\<lambda>i. sweep_grid env lat i b) xs (d1, v1) = (r, (d', w1'))"
      by (simp add: and_then_def)
    from Cons.IH[OF g[symmetric] this] s2 Inr show ?thesis by (simp add: and_then_def)
  qed
qed

lemma for_each_equilibration_estimators:
  "for_each (\<lambda>i. sweep_grid env lat i True) xs (data, w) = (r, (data', w')) \<Longrightarrow>
     estimators data' = estimators data"
proof (induction xs arbitrary: data w)
  case Nil
  then show ?case by simp
next
  case (Cons x xs)
  obtain r1 d1 w1 where s: "sweep_grid env lat x True (data, w) = (r1, (d1, w1))"
    by (metis prod.exhaust)
  show ?case
  proof (cases r1)
    case (Inl e)
    with Cons.prems s sweep_grid_equilibration[OF s] show ?thesis
      by (simp add: and_then_def)
  next
    case (Inr u)
    with Cons.prems s have "for_each (\<lambda>i. sweep_grid env lat i True) xs (d1, w1) = (r, (data', w'))"
      by (simp add: and_then_def)
    from Cons.IH[OF this] sweep_grid_equilibration[OF s] show ?thesis by simp
  qed
qed

lemma for_each_production_counts:
  "for_each (\<lambda>i. sweep_grid env lat i False) xs (data, w) = (Inr u, (data', w')) \<Longrightarrow>
     sample_counts (estimators data') = map (\<lambda>c. c + length xs) (sample_counts (estimators data))"
proof (induction xs arbitrary: data w)
  case Nil
  then show ?case by (simp add: sample_counts_def)
next
  case (Cons x xs)
  obtain r1 d1 w1 where s: "sweep_grid env lat x False (data, w) = (r1, (d1, w1))"
    by (metis prod.exhaust)
  show ?case
  proof (cases r1)
    case (Inl e)
    with Cons.prems s show ?thesis by (simp add: and_then_def)
  next
    case (Inr u1)
    with Cons.prems s
    have l: "for_each (\<lambda>i. sweep_grid env lat i False) xs (d1, w1) = (Inr u, (data', w'))"
      by (simp add: and_then_def)
    from s Inr have "sweep_grid env lat x False (data, w) = (Inr (), (d1, w1))" by simp
    from sweep_grid_production[OF this]
    have "sample_counts (estimators d1) = map Suc (sample_counts (estimators data))"
      by (auto simp: sample_counts_def record_value_def)
    with Cons.IH[OF l] show ?thesis by (simp add: sample_counts_def)
  qed
qed

subsection \<open>The three phases\<close>

lemma pre_simulation_Inr:
  assumes "pre_simulation env lat (data, w) = (Inr u, (data', w'))"
  shows "calls w' = calls w @
           map (\<lambda>i. Call_sweep_grid i True) [0..<nat (equilibration_sweeps (parameters data))]"
    and "disk w' = disk w"
    and "parameters data' = parameters data"
    and "history data' = history data"
    and "estimators data' = estimators data"
proof -
  have l: "for_each (\<lambda>i. sweep_grid env lat i True)
      [0..<nat (equilibration_sweeps (parameters data))] (data, w) = (Inr u, (data', w'))"
    using assms by (simp add: pre_simulation_def py_range_def)
  from for_each_sweeps_calls[OF l]
  show "calls w' = calls w @
           map (\<lambda>i. Call_sweep_grid i True) [0..<nat (equilibration_sweeps (parameters data))]"
    by auto
  from for_each_sweeps_frame[OF l]
  show "disk w' = disk w" "parameters data' = parameters data" "history data' = history data"
    by simp_all
  from for_each_equilibration_estimators[OF l]
  show "estimators data' = estimators data" .
qed

lemma pre_simulation_Inl:
  assumes "pre_simulation env lat (data, w) = (Inl e, (data', w'))"
  shows "\<exists>k. calls w' = calls w @
           map (\<lambda>i. Call_sweep_grid i True) (take k [0..<nat (equilibration_sweeps (parameters data))])"
proof -
  have l: "for_each (\<lambda>i. sweep_grid env lat i True)
      [0..<nat (equilibration_sweeps (parameters data))] (data, w) = (Inl e, (data', w'))"
    using assms by (simp add: pre_simulation_def py_range_def)
  from for_each_sweeps_calls[OF l] show ?thesis by auto
qed

lemma main_simulation_loop:
  "main_simulation env lat (data, w) =
     for_each (\<lambda>i. sweep_grid env lat i False) [0..<nat (sweeps (parameters data))]
       (data\<lparr>history := history data @ [state data]\<rparr>, log_call Call_ising_save_full_state w)"
  by (simp add: main_simulation_def ising_save_full_state_def py_range_def Let_def)

lemma main_simulation_Inr:
  assumes "main_simulation env lat (data, w) = (Inr u, (data', w'))"
  shows "calls w' = calls w @ Call_ising_save_full_state #
           map (\<lambda>i. Call_sweep_grid i False) [0..<nat (sweeps (parameters data))]"
    and "disk w' = disk w"
    and "parameters data' = parameters data"
    and "history data' = history data @ [state data]"
    and "sample_counts (estimators data') =
           map (\<lambda>c. c + nat (sweeps (parameters data))) (sample_counts (estimators data))"
proof -
  note l = assms[unfolded main_simulation_loop]
  from for_each_sweeps_calls[OF l]
  show "calls w' = calls w @ Call_ising_save_full_state #
           map (\<lambda>i. Call_sweep_grid i False) [0..<nat (sweeps (parameters data))]"
    by (auto simp: log_call_def)
  from for_each_sweeps_frame[OF l]
  show "disk w' = disk w" "parameters data' = parameters data"
    "history data' = history data @ [state data]"
    by (simp_all add: log_call_def)
  from for_each_production_counts[OF l]
  show "sample_counts (estimators data') =
           map (\<lambda>c. c + nat (sweeps (parameters data))) (sample_counts (estimators data))"
    by (simp add: sample_counts_def)
qed

lemma main_simulation_Inl:
  assumes "main_simulation env lat (data, w) = (Inl e, (data', w'))"
  shows "\<exists>k. calls w' = calls w @ Call_ising_save_full_state #
           map (\<lambda>i. Call_sweep_grid i False) (take k [0..<nat (sweeps (parameters data))])"
proof -
  note l = assms[unfolded main_simulation_loop]
  from for_each_sweeps_calls[OF l] show ?thesis
    by (auto simp: log_call_def)
qed

lemma post_simulation_frame:
  assumes "post_simulation lat (data, w) = (r, (data', w'))"
  shows "data' = data" and "generator w' = generator w" and "disk w' = disk w @ [history data]"
  using assms
  by (auto simp: post_simulation_def write_trace_to_disk_def print_line_def log_call_def Let_def
      split: sum.splits)

lemma post_simulation_Inl:
  assumes "post_simulation lat (data, w) = (Inl e, (data', w'))"
  shows "calls w' = calls w @ [Call_write_trace_to_disk]"
  using assms
  by (auto simp: post_simulation_def write_trace_to_disk_def print_line_def log_call_def Let_def
      split: sum.splits)

lemma post_simulation_Inr:
  assumes "post_simulation lat (data, w) = (Inr u, (data', w'))"
  shows "calls w' = calls w @
      [Call_write_trace_to_disk,
       Call_print ''Average energy = ''
         (acc_total (energy (estimators data)) / real (acc_count (energy (estimators data)))
            / real (number_sites lat)),
       Call_print ''FM order parameter = ''
         (acc_total (magnetization (estimators data))
            / real (acc_count (magnetization (estimators data))) / real (number_sites lat)),
       Call_print ''AFM order parameter = ''
         ((acc_total (magnetization_even_sites (estimators data))
             / real (acc_count (magnetization_even_sites (estimators data)))
           - acc_total (magnetization_odd_sites (estimators data))
             / real (acc_count (magnetization_odd_sites (estimators data))))
          / real (number_sites lat))]"
    and "number_sites lat \<noteq> 0"
    and "acc_count (energy (estimators data)) \<noteq> 0"
    and "acc_count (magnetization (estimators data)) \<noteq> 0"
    and "acc_count (magnetization_even_sites (estimators data)) \<noteq> 0"
    and "acc_count (magnetization_odd_sites (estimators data)) \<noteq> 0"
  using assms
  by (auto simp: post_simulation_def write_trace_to_disk_def print_line_def log_call_def Let_def
      try_with_def py_div_def moment_defs
      split: sum.splits if_splits)

lemma post_simulation_no_samples:
  assumes "acc_count (energy (estimators data)) = 0"
  shows "post_simulation lat (data, w) =
      (Inl NoSamplesRecordedError,
       (data, (log_call Call_write_trace_to_disk w)\<lparr>disk := disk w @ [history data]\<rparr>))"
  using assms
  by (simp add: post_simulation_def write_trace_to_disk_def Let_def try_with_def moment_defs)

lemma post_simulation_calls:
  assumes "post_simulation lat (data, w) = (r, (data', w'))"
  shows "\<exists>reports. calls w' =
      calls w @ Call_write_trace_to_disk # map (\<lambda>(txt, v). Call_print txt v) reports"
proof (cases r)
  case (Inl e)
  with assms post_simulation_Inl[of lat data w e data' w'] show ?thesis
    by (intro exI[of _ "[]"]) simp
next
  case (Inr u)
  with assms have "post_simulation lat (data, w) = (Inr u, (data', w'))" by simp
  from post_simulation_Inr(1)[OF this] show ?thesis
    by (intro exI[of _ "[(_, _), (_, _), (_, _)]"]) simp
qed

lemma post_simulation_outcome:
  "fst (post_simulation lat (data, w1)) = fst (post_simulation lat (data, w2))"
  by (simp add: post_simulation_def write_trace_to_disk_def Let_def split: sum.splits)

subsection \<open>How a run can end\<close>

text \<open>
  A run ends in one of four ways: the lattice constructor raises; an equilibration sweep
  raises; a production sweep raises; or the reporting step is reached, and the run
  returns or raises there. In each case the calls made are known.
\<close>

lemma simulation_cases:
  fixes env :: "('n, 's, 'r) collaborators" and p :: "'n simulation_parameters"
    and w :: "('s, 'r) world"
  obtains
    (lattice_raised) e where
      "fst (simulation env p w) = Inl e"
      "calls_made env p w = [Call_seed (seed p), Call_BinaryLattice]"
  | (equilibration_raised) e k where
      "fst (simulation env p w) = Inl e"
      "calls_made env p w =
         [Call_seed (seed p), Call_BinaryLattice, Call_sample_random_state, Call_setup_containers]
         @ map (\<lambda>i. Call_sweep_grid i True) (take k [0..<nat (equilibration_sweeps p)])"
  | (production_raised) e k where
      "fst (simulation env p w) = Inl e"
      "calls_made env p w =
         [Call_seed (seed p), Call_BinaryLattice, Call_sample_random_state, Call_setup_containers]
         @ map (\<lambda>i. Call_sweep_grid i True) [0..<nat (equilibration_sweeps p)]
         @ Call_ising_save_full_state
         # map (\<lambda>i. Call_sweep_grid i False) (take k [0..<nat (sweeps p)])"
  | (reporting) lat d1 w1 d2 w2 r w' where
      "construct_lattice env (dimensions p) (neighborhood p) (interaction_coefficients p) = Inr lat"
      "pre_simulation env lat (before_equilibration env p lat w) = (Inr (), (d1, w1))"
      "main_simulation env lat (d1, w1) = (Inr (), (d2, w2))"
      "post_simulation lat (d2, w2) = (r, (d2, w'))"
      "simulation env p w = ((case r of Inl e \<Rightarrow> Inl e | Inr u \<Rightarrow> Inr d2), w')"
      "calls w2 = calls w @
         [Call_seed (seed p), Call_BinaryLattice, Call_sample_random_state, Call_setup_containers]
         @ map (\<lambda>i. Call_sweep_grid i True) [0..<nat (equilibration_sweeps p)]
         @ Call_ising_save_full_state
         # map (\<lambda>i. Call_sweep_grid i False) [0..<nat (sweeps p)]"
      "disk w2 = disk w"
      "parameters d1 = p"
      "estimators d1 = empty_estimators"
      "history d2 = [state d1]"
      "sample_counts (estimators d2) = replicate 4 (nat (sweeps p))"
proof -
  let ?w1 = "np_random_seed env (seed p) w"
  let ?w2 = "log_call Call_BinaryLattice ?w1"
  have c2: "calls ?w2 = calls w @ [Call_seed (seed p), Call_BinaryLattice]"
    and k2: "disk ?w2 = disk w"
    by (simp_all add: np_random_seed_def log_call_def)
  show thesis
  proof (cases "construct_lattice env (dimensions p) (neighborhood p) (interaction_coefficients p)")
    case (Inl e)
    then have "simulation env p w = (Inl e, ?w2)"
      by (simp add: simulation_def BinaryLattice_def Let_def)
    with c2 show thesis
      by (intro lattice_raised[of e]) (simp_all add: calls_made_def)
  next
    case (Inr lat)
    obtain st w3 where smp: "sample_random_state env lat ?w2 = (st, w3)"
      by (metis prod.exhaust)
    then have c3: "calls w3 = calls ?w2 @ [Call_sample_random_state]" and k3: "disk w3 = disk ?w2"
      by (auto simp: sample_random_state_def log_call_def split: prod.splits)
    obtain d0 w0 where s0: "setup_containers p st w3 = (d0, w0)"
      by (metis prod.exhaust)
    then have c0: "calls w0 = calls w3 @ [Call_setup_containers]" and k0: "disk w0 = disk w3"
      and p0: "parameters d0 = p" and h0: "history d0 = []"
      and e0: "estimators d0 = empty_estimators"
      by (auto simp: setup_containers_def log_call_def)
    have b0: "before_equilibration env p lat w = (d0, w0)"
      using smp s0 by (simp add: before_equilibration_def)
    have sim: "simulation env p w =
        (case and_then (pre_simulation env lat)
                (and_then (main_simulation env lat) (post_simulation lat)) (d0, w0) of
           (Inl e, (data, w4)) \<Rightarrow> (Inl e, w4)
         | (Inr u, (data, w4)) \<Rightarrow> (Inr data, w4))"
      using Inr smp s0 by (simp add: simulation_def BinaryLattice_def Let_def)
    obtain r1 d1 w1 where pre: "pre_simulation env lat (d0, w0) = (r1, (d1, w1))"
      by (metis prod.exhaust)
    show thesis
    proof (cases r1)
      case (Inl e)
      with pre sim have res: "simulation env p w = (Inl e, w1)"
        by (simp add: and_then_def)
      from pre Inl pre_simulation_Inl[of env lat d0 w0 e d1 w1] obtain k where
        "calls w1 = calls w0 @ map (\<lambda>i. Call_sweep_grid i True)
            (take k [0..<nat (equilibration_sweeps p)])"
        using p0 by auto
      with res c0 c3 c2 show thesis
        by (intro equilibration_raised[of e k]) (simp_all add: calls_made_def)
    next
      case (Inr u1)
      with pre have pre': "pre_simulation env lat (d0, w0) = (Inr (), (d1, w1))" by simp
      note f1 = pre_simulation_Inr[OF pre']
      obtain r2 d2 w2 where mn: "main_simulation env lat (d1, w1) = (r2, (d2, w2))"
        by (metis prod.exhaust)
      show thesis
      proof (cases r2)
        case (Inl e)
        with pre' mn sim have res: "simulation env p w = (Inl e, w2)"
          by (simp add: and_then_def)
        from mn Inl main_simulation_Inl[of env lat d1 w1 e d2 w2] obtain k where
          "calls w2 = calls w1 @ Call_ising_save_full_state #
             map (\<lambda>i. Call_sweep_grid i False) (take k [0..<nat (sweeps p)])"
          using p0 f1(3) by auto
        with res c0 c3 c2 f1(1) p0 show thesis
          by (intro production_raised[of e k]) (simp_all add: calls_made_def)
      next
        case (Inr u2)
        with mn have mn': "main_simulation env lat (d1, w1) = (Inr (), (d2, w2))" by simp
        note f2 = main_simulation_Inr[OF mn']
        obtain r d' w' where post: "post_simulation lat (d2, w2) = (r, (d', w'))"
          by (metis prod.exhaust)
        from post_simulation_frame(1)[OF post] post
        have post': "post_simulation lat (d2, w2) = (r, (d2, w'))" by simp
        have res: "simulation env p w = ((case r of Inl e \<Rightarrow> Inl e | Inr u \<Rightarrow> Inr d2), w')"
          using sim pre' mn' post' by (simp add: and_then_def split: sum.splits)
        show thesis
        proof (rule reporting[OF \<open>construct_lattice env _ _ _ = Inr lat\<close> _ mn' post' res])
          show "pre_simulation env lat (before_equilibration env p lat w) = (Inr (), d1, w1)"
            using pre' b0 by simp
          show "calls w2 = calls w @
             [Call_seed (seed p), Call_BinaryLattice, Call_sample_random_state, Call_setup_containers]
             @ map (\<lambda>i. Call_sweep_grid i True) [0..<nat (equilibration_sweeps p)]
             @ Call_ising_save_full_state
             # map (\<lambda>i. Call_sweep_grid i False) [0..<nat (sweeps p)]"
            using f2(1) f1(1) f1(3) c0 c3 c2 p0 by simp
          show "disk w2 = disk w" using f2(2) f1(2) k0 k3 k2 by simp
          show "parameters d1 = p" using f1(3) p0 by simp
          show "estimators d1 = empty_estimators" using f1(5) e0 by simp
          show "history d2 = [state d1]" using f2(4) f1(4) h0 by simp
          show "sample_counts (estimators d2) = replicate 4 (nat (sweeps p))"
            using f2(5) f1(5) f1(3) e0 p0
            by (simp add: sample_counts_def empty_estimators_def empty_accumulator_def
                numeral_eq_Suc)
        qed
      qed
    qed
  qed
qed

text \<open>
  A run reaches the reporting step exactly when \<^verbatim>\<open>write_trace_to_disk\<close> is among its
  calls; none of the three ways of stopping earlier makes that call.
\<close>

lemma reaches_reporting:
  fixes env :: "('n, 's, 'r) collaborators" and p :: "'n simulation_parameters"
    and w :: "('s, 'r) world"
  assumes "Call_write_trace_to_disk \<in> set (calls_made env p w)"
  obtains lat d1 w1 d2 w2 r w' where
      "construct_lattice env (dimensions p) (neighborhood p) (interaction_coefficients p) = Inr lat"
      "pre_simulation env lat (before_equilibration env p lat w) = (Inr (), (d1, w1))"
      "main_simulation env lat (d1, w1) = (Inr (), (d2, w2))"
      "post_simulation lat (d2, w2) = (r, (d2, w'))"
      "simulation env p w = ((case r of Inl e \<Rightarrow> Inl e | Inr u \<Rightarrow> Inr d2), w')"
      "calls w2 = calls w @
         [Call_seed (seed p), Call_BinaryLattice, Call_sample_random_state, Call_setup_containers]
         @ map (\<lambda>i. Call_sweep_grid i True) [0..<nat (equilibration_sweeps p)]
         @ Call_ising_save_full_state
         # map (\<lambda>i. Call_sweep_grid i False) [0..<nat (sweeps p)]"
      "disk w2 = disk w"
      "parameters d1 = p"
      "estimators d1 = empty_estimators"
      "history d2 = [state d1]"
      "sample_counts (estimators d2) = replicate 4 (nat (sweeps p))"
proof (rule simulation_cases[of env p w], goal_cases)
  case (1 e)
  with assms show ?case by simp
next
  case (2 e k)
  with assms show ?case by auto
next
  case (3 e k)
  with assms show ?case by auto
next
  case (4 lat d1 w1 d2 w2 r w')
  from 4(1)[OF 4(2-)] show ?case .
qed


text \<open>A run that returns a container went through all three phases.\<close>

lemma completed_run:
  fixes env :: "('n, 's, 'r) collaborators" and p :: "'n simulation_parameters"
    and w :: "('s, 'r) world"
  assumes "simulation env p w = (Inr data, w')"
  obtains lat d1 w1 w2 where
      "construct_lattice env (dimensions p) (neighborhood p) (interaction_coefficients p) = Inr lat"
      "main_simulation env lat (d1, w1) = (Inr (), (data, w2))"
      "post_simulation lat (data, w2) = (Inr (), (data, w'))"
      "calls w2 = calls w @
         [Call_seed (seed p), Call_BinaryLattice, Call_sample_random_state, Call_setup_containers]
         @ map (\<lambda>i. Call_sweep_grid i True) [0..<nat (equilibration_sweeps p)]
         @ Call_ising_save_full_state
         # map (\<lambda>i. Call_sweep_grid i False) [0..<nat (sweeps p)]"
      "parameters d1 = p"
      "estimators d1 = empty_estimators"
proof (rule simulation_cases[of env p w], goal_cases)
  case (1 e)
  with assms show ?case by simp
next
  case (2 e k)
  with assms show ?case by simp
next
  case (3 e k)
  with assms show ?case by simp
next
  case (4 lat d1 w1 d2 w2 r v)
  from 4(6) assms obtain u where "r = Inr u" "d2 = data" "v = w'"
    by (auto split: sum.splits)
  with 4 show ?case by (intro that[of lat d1 w1 w2]) simp_all
qed




subsection \<open>Two runs from worlds with the same generator state\<close>

text \<open>
  A phase entered with the same container in two worlds whose generators are in the same
  state ends with the same outcome and the same container, in worlds whose generators are
  again in the same state: nothing in a phase reads the disk or the log.
\<close>

lemma pre_simulation_det:
  assumes "generator v1 = generator v2"
    and "pre_simulation env lat (d, v1) = (r, (d', v1'))"
  shows "\<exists>v2'. pre_simulation env lat (d, v2) = (r, (d', v2')) \<and> generator v2' = generator v1'"
  using for_each_sweeps_det[OF assms(1), of env lat True _ d r d' v1'] assms(2)
  by (simp add: pre_simulation_def)

lemma main_simulation_det:
  assumes "generator v1 = generator v2"
    and "main_simulation env lat (d, v1) = (r, (d', v1'))"
  shows "\<exists>v2'. main_simulation env lat (d, v2) = (r, (d', v2')) \<and> generator v2' = generator v1'"
proof -
  have "generator (log_call Call_ising_save_full_state v1)
      = generator (log_call Call_ising_save_full_state v2)"
    using assms(1) by (simp add: log_call_def)
  from for_each_sweeps_det[OF this assms(2)[unfolded main_simulation_loop]]
  show ?thesis by (simp add: main_simulation_loop)
qed

lemma phases_det:
  assumes "generator v1 = generator v2"
  shows "(case and_then (pre_simulation env lat)
                (and_then (main_simulation env lat) (post_simulation lat)) (d, v1) of
            (r, (d', v')) \<Rightarrow> (r, d'))
       = (case and_then (pre_simulation env lat)
                (and_then (main_simulation env lat) (post_simulation lat)) (d, v2) of
            (r, (d', v')) \<Rightarrow> (r, d'))"
proof -
  obtain r1 d1 x1 where pre1: "pre_simulation env lat (d, v1) = (r1, (d1, x1))"
    by (metis prod.exhaust)
  from pre_simulation_det[OF assms pre1] obtain x2 where
    pre2: "pre_simulation env lat (d, v2) = (r1, (d1, x2))" and gx: "generator x1 = generator x2"
    by auto
  show ?thesis
  proof (cases r1)
    case (Inl e)
    with pre1 pre2 show ?thesis by (simp add: and_then_def)
  next
    case (Inr u1)
    obtain r2 d2 y1 where main1: "main_simulation env lat (d1, x1) = (r2, (d2, y1))"
      by (metis prod.exhaust)
    from main_simulation_det[OF gx main1] obtain y2 where
      main2: "main_simulation env lat (d1, x2) = (r2, (d2, y2))" by auto
    show ?thesis
    proof (cases r2)
      case (Inl e)
      with Inr pre1 pre2 main1 main2 show ?thesis by (simp add: and_then_def)
    next
      case (Inr u2)
      obtain r3 d3 z1 where post1: "post_simulation lat (d2, y1) = (r3, (d3, z1))"
        by (metis prod.exhaust)
      obtain r4 d4 z2 where post2: "post_simulation lat (d2, y2) = (r4, (d4, z2))"
        by (metis prod.exhaust)
      from post_simulation_outcome[of lat d2 y1 y2] post1 post2 have "r3 = r4" by simp
      moreover from post_simulation_frame(1)[OF post1] post_simulation_frame(1)[OF post2]
      have "d3 = d4" by simp
      ultimately show ?thesis
        using \<open>r1 = Inr u1\<close> Inr pre1 pre2 main1 main2 post1 post2 by (simp add: and_then_def)
    qed
  qed
qed

subsection \<open>Observations on a log\<close>

lemma printed_append: "printed (xs @ ys) = printed xs @ printed ys"
  by (induction xs rule: printed.induct) simp_all

lemma printed_sweeps: "printed (map (\<lambda>i. Call_sweep_grid i b) xs) = []"
  by (induction xs) simp_all

lemma printed_reports: "printed (map (\<lambda>(txt, v). Call_print txt v) reports) = reports"
  by (induction reports) auto

lemma sweep_indices_append:
  "sweep_indices b (xs @ ys) = sweep_indices b xs @ sweep_indices b ys"
  by (induction b xs rule: sweep_indices.induct) simp_all

lemma sweep_indices_sweeps:
  "sweep_indices b (map (\<lambda>i. Call_sweep_grid i b') xs) = (if b' = b then xs else [])"
  by (induction xs) auto

lemma sweep_indices_reports:
  "sweep_indices b (map (\<lambda>(txt, v). Call_print txt v) reports) = []"
  by (induction reports) auto

lemma sweep_calls_append: "sweep_calls (xs @ ys) = sweep_calls xs @ sweep_calls ys"
  by (simp add: sweep_calls_def)

lemma sweep_calls_other:
  "\<not> is_sweep c \<Longrightarrow> sweep_calls (c # cs) = sweep_calls cs"
  "sweep_calls [] = []"
  by (simp_all add: sweep_calls_def)

lemma take_upt_min: "take k [0..<n] = [0..<min k n]"
  by (cases "k \<le> n") (simp_all add: min_def)

lemma sweep_calls_setup:
  "sweep_calls (Call_seed s # Call_BinaryLattice # Call_sample_random_state
      # Call_setup_containers # cs) = sweep_calls cs"
  by (simp add: sweep_calls_def)

lemma sweep_calls_sweeps:
  "sweep_calls (map (\<lambda>i. Call_sweep_grid i b) xs) = map (\<lambda>i. Call_sweep_grid i b) xs"
  by (induction xs) (simp_all add: sweep_calls_def)

lemma sweep_calls_reports:
  "sweep_calls (map (\<lambda>(txt, v). Call_print txt v) reports) = []"
  by (induction reports) (auto simp: sweep_calls_def)

subsection \<open>The example runs\<close>

lemmas run_defs = simulation_def np_random_seed_def BinaryLattice_def sample_random_state_def
  setup_containers_def pre_simulation_def main_simulation_def post_simulation_def
  sweep_grid_def ising_save_full_state_def write_trace_to_disk_def print_line_def
  log_call_def and_then_def try_with_def py_range_def py_div_def moment_defs
  record_value_def empty_accumulator_def empty_estimators_def
  example_collaborators_def example_parameters_def example_world_def Let_def

lemma example_lattice:
  "construct_lattice example_collaborators [4] () [1, 1] = Inr example_lattice"
  by (simp add: example_collaborators_def example_lattice_def upt_rec)

lemma example_run_0_1:
  "simulation example_collaborators (example_parameters 0 1) example_world =
     (Inr example_data,
      \<lparr>generator = 15, disk = [[[1, 1, 1, 1]]],
       calls = [Call_seed 7, Call_BinaryLattice, Call_sample_random_state,
         Call_setup_containers, Call_ising_save_full_state,
         Call_sweep_grid 0 False, Call_write_trace_to_disk,
         Call_print ''Average energy = '' (- 1),
         Call_print ''FM order parameter = '' (- 1),
         Call_print ''AFM order parameter = '' 0]\<rparr>)"
  by (simp add: run_defs example_data_def upt_rec)

lemma example_run_1_2:
  "simulation example_collaborators (example_parameters 1 2) example_world =
     (Inr \<lparr>parameters = example_parameters 1 2, state = [- 1, - 1, - 1, - 1],
           estimators =
             \<lparr>energy = \<lparr>acc_total = - 8, acc_count = 2\<rparr>,
              magnetization = \<lparr>acc_total = 0, acc_count = 2\<rparr>,
              magnetization_even_sites = \<lparr>acc_total = 0, acc_count = 2\<rparr>,
              magnetization_odd_sites = \<lparr>acc_total = 0, acc_count = 2\<rparr>\<rparr>,
           history = [[- 1, - 1, - 1, - 1]]\<rparr>,
      \<lparr>generator = 23, disk = [[[- 1, - 1, - 1, - 1]]],
       calls = [Call_seed 7, Call_BinaryLattice, Call_sample_random_state,
         Call_setup_containers, Call_sweep_grid 0 True,
         Call_ising_save_full_state, Call_sweep_grid 0 False,
         Call_sweep_grid 1 False, Call_write_trace_to_disk,
         Call_print ''Average energy = '' (- 1),
         Call_print ''FM order parameter = '' 0,
         Call_print ''AFM order parameter = '' 0]\<rparr>)"
  by (simp add: run_defs upt_rec)

lemma example_run_2_0:
  "simulation example_collaborators (example_parameters 2 0) example_world =
     (Inl NoSamplesRecordedError,
      \<lparr>generator = 19, disk = [[[1, 1, 1, 1]]],
       calls = [Call_seed 7, Call_BinaryLattice, Call_sample_random_state,
         Call_setup_containers, Call_sweep_grid 0 True, Call_sweep_grid 1 True,
         Call_ising_save_full_state, Call_write_trace_to_disk]\<rparr>)"
  by (simp add: run_defs upt_rec)

lemma example_parameters_fields:
  "seed (example_parameters a b) = 7"
  "equilibration_sweeps (example_parameters a b) = a"
  "sweeps (example_parameters a b) = b"
  "dimensions (example_parameters a b) = [4]"
  "neighborhood (example_parameters a b) = ()"
  "interaction_coefficients (example_parameters a b) = [1, 1]"
  by (simp_all add: example_parameters_def)

lemma example_calls_1_2:
  "calls_made example_collaborators (example_parameters 1 2) example_world =
     [Call_seed 7, Call_BinaryLattice, Call_sample_random_state,
      Call_setup_containers, Call_sweep_grid 0 True,
      Call_ising_save_full_state, Call_sweep_grid 0 False,
      Call_sweep_grid 1 False, Call_write_trace_to_disk,
      Call_print ''Average energy = '' (- 1),
      Call_print ''FM order parameter = '' 0,
      Call_print ''AFM order parameter = '' 0]"
  by (simp add: calls_made_def example_run_1_2) (simp add: example_world_def)

subsection \<open>A run with no production sweep\<close>

text \<open>
  When the run reaches the reporting step, no sample has been recorded, so the first
  moment requested raises and nothing is printed.
\<close>

lemma zero_production_sweeps:
  assumes "sweeps p \<le> 0" and "Call_write_trace_to_disk \<in> set (calls_made env p w)"
  shows "fst (simulation env p w) = Inl NoSamplesRecordedError \<and> printed (calls_made env p w) = []"
proof -
  from assms(2) obtain lat d1 w1 d2 w2 r w' where
    post: "post_simulation lat (d2, w2) = (r, (d2, w'))"
    and sim: "simulation env p w = ((case r of Inl e \<Rightarrow> Inl e | Inr u \<Rightarrow> Inr d2), w')"
    and c: "calls w2 = calls w @
         [Call_seed (seed p), Call_BinaryLattice, Call_sample_random_state, Call_setup_containers]
         @ map (\<lambda>i. Call_sweep_grid i True) [0..<nat (equilibration_sweeps p)]
         @ Call_ising_save_full_state
         # map (\<lambda>i. Call_sweep_grid i False) [0..<nat (sweeps p)]"
    and n: "sample_counts (estimators d2) = replicate 4 (nat (sweeps p))"
    by (rule reaches_reporting)
  from n assms(1) have z: "acc_count (energy (estimators d2)) = 0"
    by (simp add: sample_counts_def numeral_eq_Suc)
  from post_simulation_no_samples[OF z, of lat w2] post
  have "r = Inl NoSamplesRecordedError" "calls w' = calls w2 @ [Call_write_trace_to_disk]"
    by (simp_all add: log_call_def)
  with sim c show ?thesis
    by (simp add: calls_made_def printed_append printed_sweeps)
qed

subsection \<open>The claims\<close>

text \<open>
  C1. For every run whose accumulator sample count is zero (for example, a run with zero
  production sweeps), requesting a final moment fails with NoSamplesRecordedError; the
  reporting step never silently returns a degenerate value such as 0 or NaN that could be
  mistaken for a real measurement.

  The four accumulators are filled together, and the energy moment is the first one that
  \<^verbatim>\<open>post_simulation\<close> requests. Whenever the energy accumulator holds no sample,
  \<^verbatim>\<open>post_simulation\<close> raises NoSamplesRecordedError, and the only call it has made by then
  is the trace write: no line is printed. The example of the claim is the second half: a
  run with no production sweep, in which no call raises before the reporting step, ends
  with NoSamplesRecordedError and prints nothing.
\<close>

theorem no_samples_recorded:
  "(acc_count (energy (estimators data)) = 0 \<longrightarrow>
      fst (post_simulation lat (data, w)) = Inl NoSamplesRecordedError \<and>
      calls (snd (snd (post_simulation lat (data, w)))) = calls w @ [Call_write_trace_to_disk])
   \<and> (sweeps p \<le> 0 \<and> Call_write_trace_to_disk \<in> set (calls_made env p w0) \<longrightarrow>
      fst (simulation env p w0) = Inl NoSamplesRecordedError \<and>
      printed (calls_made env p w0) = [])"
  using post_simulation_no_samples[of data lat w] zero_production_sweeps[of p env w0]
  by (simp add: log_call_def)

theorem no_samples_recorded_witness:
  "acc_count (energy (estimators (example_data\<lparr>estimators := empty_estimators\<rparr>))) = 0 \<and>
   fst (post_simulation example_lattice
          (example_data\<lparr>estimators := empty_estimators\<rparr>, example_world))
     = Inl NoSamplesRecordedError \<and>
   calls (snd (snd (post_simulation example_lattice
          (example_data\<lparr>estimators := empty_estimators\<rparr>, example_world))))
     = [Call_write_trace_to_disk] \<and>
   sweeps (example_parameters 2 0) \<le> 0 \<and>
   Call_write_trace_to_disk
     \<in> set (calls_made example_collaborators (example_parameters 2 0) example_world) \<and>
   fst (simulation example_collaborators (example_parameters 2 0) example_world)
     = Inl NoSamplesRecordedError \<and>
   printed (calls_made example_collaborators (example_parameters 2 0) example_world) = []"
proof -
  have h1: "acc_count (energy (estimators (example_data\<lparr>estimators := empty_estimators\<rparr>))) = 0"
    by (simp add: empty_estimators_def empty_accumulator_def)
  have h2: "sweeps (example_parameters 2 0) \<le> 0"
    by (simp add: example_parameters_fields)
  have h3: "Call_write_trace_to_disk
     \<in> set (calls_made example_collaborators (example_parameters 2 0) example_world)"
    by (simp add: calls_made_def example_run_2_0) (simp add: example_world_def)
  from no_samples_recorded[where data = "example_data\<lparr>estimators := empty_estimators\<rparr>"
      and lat = example_lattice and w = example_world and p = "example_parameters 2 0"
      and env = example_collaborators and ?w0.0 = example_world] h1 h2 h3
  show ?thesis
    by (simp add: example_world_def)
qed

text \<open>
  C2. For every completed run, the final reported values are moments (accumulator total
  divided by sample count) normalized by number_sites: average energy equals the energy
  moment divided by number_sites, the FM order parameter equals the magnetization moment
  divided by number_sites, and the AFM order parameter equals the difference of the
  even-site and odd-site magnetization moments divided by number_sites.

  A run that returns a container has constructed a lattice with at least one site, each of
  the four accumulators of the container holds at least one sample, and the lines printed
  by the run are exactly these three, with these values.
\<close>

theorem reported_values:
  assumes "simulation env p w = (Inr data, w')"
  shows "\<exists>lat.
      construct_lattice env (dimensions p) (neighborhood p) (interaction_coefficients p) = Inr lat \<and>
      0 < number_sites lat \<and>
      0 < acc_count (energy (estimators data)) \<and>
      0 < acc_count (magnetization (estimators data)) \<and>
      0 < acc_count (magnetization_even_sites (estimators data)) \<and>
      0 < acc_count (magnetization_odd_sites (estimators data)) \<and>
      printed (calls_made env p w) =
        [(''Average energy = '',
          acc_total (energy (estimators data)) / real (acc_count (energy (estimators data)))
            / real (number_sites lat)),
         (''FM order parameter = '',
          acc_total (magnetization (estimators data))
            / real (acc_count (magnetization (estimators data))) / real (number_sites lat)),
         (''AFM order parameter = '',
          (acc_total (magnetization_even_sites (estimators data))
             / real (acc_count (magnetization_even_sites (estimators data)))
           - acc_total (magnetization_odd_sites (estimators data))
             / real (acc_count (magnetization_odd_sites (estimators data))))
          / real (number_sites lat))]"
proof -
  from assms obtain lat w2 where
    lat: "construct_lattice env (dimensions p) (neighborhood p) (interaction_coefficients p) = Inr lat"
    and post: "post_simulation lat (data, w2) = (Inr (), (data, w'))"
    and c: "calls w2 = calls w @
         [Call_seed (seed p), Call_BinaryLattice, Call_sample_random_state, Call_setup_containers]
         @ map (\<lambda>i. Call_sweep_grid i True) [0..<nat (equilibration_sweeps p)]
         @ Call_ising_save_full_state
         # map (\<lambda>i. Call_sweep_grid i False) [0..<nat (sweeps p)]"
    by (rule completed_run)
  note r = post_simulation_Inr[OF post]
  from r(1) c assms have "printed (calls_made env p w) =
        [(''Average energy = '',
          acc_total (energy (estimators data)) / real (acc_count (energy (estimators data)))
            / real (number_sites lat)),
         (''FM order parameter = '',
          acc_total (magnetization (estimators data))
            / real (acc_count (magnetization (estimators data))) / real (number_sites lat)),
         (''AFM order parameter = '',
          (acc_total (magnetization_even_sites (estimators data))
             / real (acc_count (magnetization_even_sites (estimators data)))
           - acc_total (magnetization_odd_sites (estimators data))
             / real (acc_count (magnetization_odd_sites (estimators data))))
          / real (number_sites lat))]"
    by (simp add: calls_made_def printed_append printed_sweeps)
  with lat r(2-) show ?thesis by (intro exI[of _ lat]) simp
qed

theorem reported_values_witness:
  "simulation example_collaborators (example_parameters 1 2) example_world =
     (Inr \<lparr>parameters = example_parameters 1 2, state = [- 1, - 1, - 1, - 1],
           estimators =
             \<lparr>energy = \<lparr>acc_total = - 8, acc_count = 2\<rparr>,
              magnetization = \<lparr>acc_total = 0, acc_count = 2\<rparr>,
              magnetization_even_sites = \<lparr>acc_total = 0, acc_count = 2\<rparr>,
              magnetization_odd_sites = \<lparr>acc_total = 0, acc_count = 2\<rparr>\<rparr>,
           history = [[- 1, - 1, - 1, - 1]]\<rparr>,
      \<lparr>generator = 23, disk = [[[- 1, - 1, - 1, - 1]]],
       calls = [Call_seed 7, Call_BinaryLattice, Call_sample_random_state,
         Call_setup_containers, Call_sweep_grid 0 True,
         Call_ising_save_full_state, Call_sweep_grid 0 False,
         Call_sweep_grid 1 False, Call_write_trace_to_disk,
         Call_print ''Average energy = '' (- 1),
         Call_print ''FM order parameter = '' 0,
         Call_print ''AFM order parameter = '' 0]\<rparr>)
   \<and> printed (calls_made example_collaborators (example_parameters 1 2) example_world) =
        [(''Average energy = '', - 8 / 2 / 4), (''FM order parameter = '', 0 / 2 / 4),
         (''AFM order parameter = '', (0 / 2 - 0 / 2) / 4)]"
  using reported_values[OF example_run_1_2] example_run_1_2
  by (simp add: example_parameters_fields example_lattice example_lattice_def)



text \<open>
  C4. For every fixed parameter set including the seed, two independent invocations of
  simulation produce identical final accumulator moments (the run is a deterministic
  function of its parameters).

  Two invocations with the same parameters, started in any two worlds (whatever the
  generator state, the disk and the log were before), end alike: both raise the same
  exception or both return the same container, hence the same accumulators and the same
  moments. The collaborators are functions of their arguments and of the generator state
  (specification, section 7), and the first statement of \<^verbatim>\<open>simulation\<close> replaces the
  generator state by the one the seed determines.
\<close>

theorem simulation_deterministic:
  "fst (simulation env p w1) = fst (simulation env p w2)"
proof (cases "construct_lattice env (dimensions p) (neighborhood p) (interaction_coefficients p)")
  case (Inl e)
  then show ?thesis by (simp add: simulation_def BinaryLattice_def Let_def)
next
  case (Inr lat)
  let ?v1 = "log_call Call_BinaryLattice (np_random_seed env (seed p) w1)"
  let ?v2 = "log_call Call_BinaryLattice (np_random_seed env (seed p) w2)"
  have g: "generator ?v1 = generator ?v2"
    by (simp add: np_random_seed_def log_call_def)
  obtain st g' where dr: "draw_random_state env lat (generator ?v1) = (st, g')"
    by (metis prod.exhaust)
  let ?x1 = "(log_call Call_sample_random_state ?v1)\<lparr>generator := g'\<rparr>"
  let ?x2 = "(log_call Call_sample_random_state ?v2)\<lparr>generator := g'\<rparr>"
  have s1: "sample_random_state env lat ?v1 = (st, ?x1)"
    and s2: "sample_random_state env lat ?v2 = (st, ?x2)"
    using dr g by (simp_all add: sample_random_state_def)
  obtain d0 where c1: "setup_containers p st ?x1 = (d0, log_call Call_setup_containers ?x1)"
    and c2: "setup_containers p st ?x2 = (d0, log_call Call_setup_containers ?x2)"
    by (simp add: setup_containers_def)
  have "generator (log_call Call_setup_containers ?x1)
      = generator (log_call Call_setup_containers ?x2)"
    by (simp add: log_call_def)
  from phases_det[OF this, of env lat d0] show ?thesis
    using Inr s1 s2 c1 c2
    by (simp add: simulation_def BinaryLattice_def Let_def split: prod.splits sum.splits)
qed

theorem simulation_deterministic_witness:
  "fst (simulation example_collaborators (example_parameters 0 1) example_world)
   = fst (simulation example_collaborators (example_parameters 0 1)
        \<lparr>generator = 99, disk = [[[1, 1]]], calls = [Call_seed 3]\<rparr>)
   \<and> fst (simulation example_collaborators (example_parameters 0 1) example_world)
   = Inr example_data"
  using simulation_deterministic[of example_collaborators "example_parameters 0 1" example_world
      "\<lparr>generator = 99, disk = [[[1, 1]]], calls = [Call_seed 3]\<rparr>"]
  by (simp add: example_run_0_1)

text \<open>
  C5. Every simulation run seeds the shared uniform random source exactly once, before the
  lattice is constructed, before the initial random spin state is sampled, and before any
  sweep; it is never reseeded later in the run.

  In every run, however it ends, the first call made is \<^verbatim>\<open>np.random.seed\<close> with the seed
  of the parameters, and no later call of the run is a call of \<^verbatim>\<open>np.random.seed\<close>.
\<close>

theorem seeded_once_before_everything:
  "\<exists>rest. calls_made env p w = Call_seed (seed p) # rest \<and> (\<forall>s. Call_seed s \<notin> set rest)"
proof (rule simulation_cases[of env p w], goal_cases)
  case (1 e)
  then show ?case by simp
next
  case (2 e k)
  then show ?case by auto
next
  case (3 e k)
  then show ?case by auto
next
  case (4 lat d1 w1 d2 w2 r w')
  from post_simulation_calls[OF 4(4)] obtain reports where
    "calls w' = calls w2 @ Call_write_trace_to_disk # map (\<lambda>(txt, v). Call_print txt v) reports"
    by blast
  with 4(5,6) show ?case by (auto simp: calls_made_def)
qed

theorem seeded_once_before_everything_witness:
  "\<exists>rest. calls_made example_collaborators (example_parameters 1 2) example_world
      = Call_seed 7 # rest \<and> (\<forall>s. Call_seed s \<notin> set rest)"
  using seeded_once_before_everything[of example_collaborators "example_parameters 1 2" example_world]
  by (simp add: example_parameters_fields)

text \<open>
  C6. For every parameter set, the driver invokes sweep_grid exactly equilibration_sweeps
  times with equilibration_run set to true (so no accumulation occurs in those sweeps),
  followed by exactly sweeps invocations with equilibration_run set to false; all
  equilibration sweeps precede all production sweeps, and reporting/persistence happens
  only after the last production sweep.

  In every run, however it ends, the calls of \<^verbatim>\<open>sweep_grid\<close> are an initial segment of
  this sequence: the flag true with the indices below \<open>equilibration_sweeps\<close>, then the flag
  false with the indices below \<open>sweeps\<close>. A run in which no call raises before the
  reporting step is one whose calls include \<^verbatim>\<open>write_trace_to_disk\<close>; its calls are, in
  this order: the seeding, the lattice construction, the sampling of the initial state and
  the set-up of the container; all the equilibration sweeps; the checkpoint; all the
  production sweeps; the trace write; the printed lines. When the run returns a container,
  each of its four accumulators holds exactly \<open>sweeps\<close> samples: the equilibration sweeps
  recorded none.
\<close>

theorem sweep_phases:
  "(\<exists>n. sweep_calls (calls_made env p w) =
       take n (map (\<lambda>i. Call_sweep_grid i True) [0..<nat (equilibration_sweeps p)]
               @ map (\<lambda>i. Call_sweep_grid i False) [0..<nat (sweeps p)]))
   \<and> (Call_write_trace_to_disk \<in> set (calls_made env p w) \<longrightarrow>
       (\<exists>reports. calls_made env p w =
            [Call_seed (seed p), Call_BinaryLattice, Call_sample_random_state,
             Call_setup_containers]
            @ map (\<lambda>i. Call_sweep_grid i True) [0..<nat (equilibration_sweeps p)]
            @ [Call_ising_save_full_state]
            @ map (\<lambda>i. Call_sweep_grid i False) [0..<nat (sweeps p)]
            @ [Call_write_trace_to_disk]
            @ map (\<lambda>(txt, v). Call_print txt v) reports))
   \<and> (\<forall>data. fst (simulation env p w) = Inr data \<longrightarrow>
         sample_counts (estimators data) = replicate 4 (nat (sweeps p)))"
proof (rule simulation_cases[of env p w], goal_cases)
  case (1 e)
  then show ?case by (intro conjI exI[of _ 0]) (simp_all add: sweep_calls_def)
next
  case (2 e k)
  then show ?case
    by (intro conjI exI[of _ "min k (nat (equilibration_sweeps p))"])
      (auto simp: sweep_calls_setup sweep_calls_sweeps take_map take_upt_min)
next
  case (3 e k)
  then show ?case
    by (intro conjI exI[of _ "nat (equilibration_sweeps p) + k"])
      (auto simp: sweep_calls_setup sweep_calls_append sweep_calls_sweeps sweep_calls_other
        take_map)
next
  case (4 lat d1 w1 d2 w2 r w')
  from post_simulation_calls[OF 4(4)] obtain reports where
    "calls w' = calls w2 @ Call_write_trace_to_disk # map (\<lambda>(txt, v). Call_print txt v) reports"
    by blast
  with 4(5,6) have c: "calls_made env p w =
            [Call_seed (seed p), Call_BinaryLattice, Call_sample_random_state,
             Call_setup_containers]
            @ map (\<lambda>i. Call_sweep_grid i True) [0..<nat (equilibration_sweeps p)]
            @ [Call_ising_save_full_state]
            @ map (\<lambda>i. Call_sweep_grid i False) [0..<nat (sweeps p)]
            @ [Call_write_trace_to_disk]
            @ map (\<lambda>(txt, v). Call_print txt v) reports"
    by (simp add: calls_made_def)
  then have "sweep_calls (calls_made env p w) =
       take (nat (equilibration_sweeps p) + nat (sweeps p))
         (map (\<lambda>i. Call_sweep_grid i True) [0..<nat (equilibration_sweeps p)]
               @ map (\<lambda>i. Call_sweep_grid i False) [0..<nat (sweeps p)])"
    by (simp add: sweep_calls_setup sweep_calls_append sweep_calls_sweeps sweep_calls_other
        sweep_calls_reports)
  moreover from 4(5,11)
  have "\<forall>data. fst (simulation env p w) = Inr data \<longrightarrow>
            sample_counts (estimators data) = replicate 4 (nat (sweeps p))"
    by (auto split: sum.splits)
  ultimately show ?case using c by blast
qed

theorem sweep_phases_witness:
  "(\<exists>n. sweep_calls (calls_made example_collaborators (example_parameters 1 2) example_world) =
       take n [Call_sweep_grid 0 True, Call_sweep_grid 0 False, Call_sweep_grid 1 False]) \<and>
   Call_write_trace_to_disk
     \<in> set (calls_made example_collaborators (example_parameters 1 2) example_world) \<and>
   (\<exists>reports. calls_made example_collaborators (example_parameters 1 2) example_world =
      [Call_seed 7, Call_BinaryLattice, Call_sample_random_state, Call_setup_containers,
       Call_sweep_grid 0 True, Call_ising_save_full_state,
       Call_sweep_grid 0 False, Call_sweep_grid 1 False, Call_write_trace_to_disk]
      @ map (\<lambda>(txt, v). Call_print txt v) reports) \<and>
   (\<exists>data. fst (simulation example_collaborators (example_parameters 1 2) example_world)
      = Inr data \<and> sample_counts (estimators data) = [2, 2, 2, 2])"
proof -
  have h: "Call_write_trace_to_disk
     \<in> set (calls_made example_collaborators (example_parameters 1 2) example_world)"
    by (simp add: example_calls_1_2)
  have r: "\<exists>data. fst (simulation example_collaborators (example_parameters 1 2) example_world)
      = Inr data"
    by (simp add: example_run_1_2)
  from sweep_phases[where env = example_collaborators and p = "example_parameters 1 2"
      and w = example_world] h r
  show ?thesis
    by (auto simp: example_parameters_fields upt_rec numeral_eq_Suc)
qed

text \<open>
  C7. For a run configured with 0 equilibration sweeps and 1 production sweep (e.g., a 4x4
  lattice, all coupling coefficients 1.0, temperature 2.0, fixed seed), the energy and
  magnetization accumulators each contain exactly 1 recorded sample at the end of the run,
  and the reported moments equal that single sweep's measured energy and magnetization
  exactly.

  The sweep measures the observables on the state it leaves, and nothing changes the
  state afterwards: the energy \<open>E\<close> and the magnetisation \<open>M\<close> of the state in the returned
  container are the values the sweep measured. Both accumulators hold one sample and
  their moments are \<open>E\<close> and \<open>M\<close>.
\<close>

theorem single_production_sweep:
  assumes "equilibration_sweeps p = 0" and "sweeps p = 1"
    and "simulation env p w = (Inr data, w')"
  shows "\<exists>lat E M.
      construct_lattice env (dimensions p) (neighborhood p) (interaction_coefficients p) = Inr lat \<and>
      total_energy env lat (state data) = Inr E \<and>
      total_magnetization env (state data) = Inr M \<and>
      acc_count (energy (estimators data)) = 1 \<and>
      acc_count (magnetization (estimators data)) = 1 \<and>
      energy_1st_moment (estimators data) = Inr E \<and>
      magnetization_1st_moment (estimators data) = Inr M"
proof -
  from assms(3) obtain lat d1 w1 w2 where
    lat: "construct_lattice env (dimensions p) (neighborhood p) (interaction_coefficients p) = Inr lat"
    and main: "main_simulation env lat (d1, w1) = (Inr (), (data, w2))"
    and p1: "parameters d1 = p"
    and e1: "estimators d1 = empty_estimators"
    by (rule completed_run)
  let ?d = "d1\<lparr>history := history d1 @ [state d1]\<rparr>"
  from main p1 assms(2)
  have "sweep_grid env lat 0 False (?d, log_call Call_ising_save_full_state w1)
      = (Inr (), (data, w2))"
    by (simp add: main_simulation_loop and_then_def split: prod.splits sum.splits)
  from sweep_grid_production[OF this] e1 obtain E M where
    "total_energy env lat (state data) = Inr E"
    "total_magnetization env (state data) = Inr M"
    "energy (estimators data) = record_value E empty_accumulator"
    "magnetization (estimators data) = record_value M empty_accumulator"
    by (auto simp: empty_estimators_def)
  with lat show ?thesis
    by (intro exI[of _ lat] exI[of _ E] exI[of _ M])
      (simp add: moment_defs record_value_def empty_accumulator_def)
qed

theorem single_production_sweep_witness:
  "equilibration_sweeps (example_parameters 0 1) = 0 \<and> sweeps (example_parameters 0 1) = 1 \<and>
   fst (simulation example_collaborators (example_parameters 0 1) example_world) = Inr example_data \<and>
   (\<exists>E M. total_energy example_collaborators example_lattice [- 1, - 1, - 1, - 1] = Inr E \<and>
      total_magnetization example_collaborators [- 1, - 1, - 1, - 1] = Inr M \<and>
      acc_count (energy (estimators example_data)) = 1 \<and>
      acc_count (magnetization (estimators example_data)) = 1 \<and>
      energy_1st_moment (estimators example_data) = Inr E \<and>
      magnetization_1st_moment (estimators example_data) = Inr M)"
proof -
  have h: "equilibration_sweeps (example_parameters 0 1) = 0" "sweeps (example_parameters 0 1) = 1"
    by (simp_all add: example_parameters_fields)
  from single_production_sweep[OF h example_run_0_1] h show ?thesis
    by (simp add: example_run_0_1 example_parameters_fields example_lattice)
      (simp add: example_data_def)
qed

text \<open>
  C8. After the last production sweep the estimator accumulators are never mutated: the
  reporting step (trace writing and printing of the final values) leaves every
  accumulator field and the spin state unchanged, for every run.

  Whatever container and world \<^verbatim>\<open>post_simulation\<close> is entered with, and whether it
  returns or raises, the container it leaves is the one it received (parameters, spin
  state, all four accumulators and the history), and the generator has not been drawn
  from. \<^verbatim>\<open>simulation\<close> calls nothing after \<^verbatim>\<open>post_simulation\<close>.
\<close>

theorem post_simulation_read_only:
  "fst (snd (post_simulation lat (data, w))) = data \<and>
   generator (snd (snd (post_simulation lat (data, w)))) = generator w"
proof -
  obtain r d' w' where "post_simulation lat (data, w) = (r, (d', w'))"
    by (metis prod.exhaust)
  with post_simulation_frame[OF this] show ?thesis by simp
qed

theorem post_simulation_read_only_witness:
  "fst (snd (post_simulation example_lattice (example_data, example_world))) = example_data \<and>
   generator (snd (snd (post_simulation example_lattice (example_data, example_world)))) = 0"
  using post_simulation_read_only[of example_lattice example_data example_world]
  by (simp add: example_world_def)

text \<open>
  C9. In every run, the sweep_index passed to sweep_grid during production sweeps restarts
  at 0 and ranges over 0 .. sweeps - 1 in increasing order, independent of how many
  equilibration sweeps were performed (equilibration sweeps use their own index sequence
  0 .. equilibration_sweeps - 1).

  In every run, however it ends, the indices passed with the flag false are
  \<open>0, 1, ..., k - 1\<close> in this order, for some \<open>k\<close> up to \<open>sweeps\<close>, whatever
  \<open>equilibration_sweeps\<close> is, and the indices passed with the flag true are
  \<open>0, 1, ..., j - 1\<close> for some \<open>j\<close> up to \<open>equilibration_sweeps\<close>. In a run in which no
  call raises before the reporting step, both sequences are complete.
\<close>

theorem sweep_index_sequences:
  "(\<exists>j k. j \<le> nat (equilibration_sweeps p) \<and> k \<le> nat (sweeps p) \<and>
      sweep_indices True (calls_made env p w) = [0..<j] \<and>
      sweep_indices False (calls_made env p w) = [0..<k])
   \<and> (Call_write_trace_to_disk \<in> set (calls_made env p w) \<longrightarrow>
      sweep_indices True (calls_made env p w) = [0..<nat (equilibration_sweeps p)] \<and>
      sweep_indices False (calls_made env p w) = [0..<nat (sweeps p)])"
proof (rule simulation_cases[of env p w], goal_cases)
  case (1 e)
  then show ?case by (intro conjI exI[of _ 0]) simp_all
next
  case (2 e k)
  then show ?case
    by (intro conjI exI[of _ "min k (nat (equilibration_sweeps p))"] exI[of _ 0])
      (auto simp: sweep_indices_append sweep_indices_sweeps take_upt_min)
next
  case (3 e k)
  then show ?case
    by (intro conjI exI[of _ "nat (equilibration_sweeps p)"] exI[of _ "min k (nat (sweeps p))"])
      (auto simp: sweep_indices_append sweep_indices_sweeps take_upt_min)
next
  case (4 lat d1 w1 d2 w2 r w')
  from post_simulation_calls[OF 4(4)] obtain reports where
    "calls w' = calls w2 @ Call_write_trace_to_disk # map (\<lambda>(txt, v). Call_print txt v) reports"
    by blast
  with 4(5,6) have
    "sweep_indices True (calls_made env p w) = [0..<nat (equilibration_sweeps p)]"
    "sweep_indices False (calls_made env p w) = [0..<nat (sweeps p)]"
    by (simp_all add: calls_made_def sweep_indices_append sweep_indices_sweeps
        sweep_indices_reports)
  then show ?case
    by (intro conjI exI[of _ "nat (equilibration_sweeps p)"] exI[of _ "nat (sweeps p)"]) simp_all
qed

theorem sweep_index_sequences_witness:
  "(\<exists>j k. j \<le> 1 \<and> k \<le> 2 \<and>
      sweep_indices True (calls_made example_collaborators (example_parameters 1 2) example_world)
        = [0..<j] \<and>
      sweep_indices False (calls_made example_collaborators (example_parameters 1 2) example_world)
        = [0..<k]) \<and>
   Call_write_trace_to_disk
     \<in> set (calls_made example_collaborators (example_parameters 1 2) example_world) \<and>
   sweep_indices True (calls_made example_collaborators (example_parameters 1 2) example_world)
     = [0] \<and>
   sweep_indices False (calls_made example_collaborators (example_parameters 1 2) example_world)
     = [0, 1]"
proof -
  have h: "Call_write_trace_to_disk
     \<in> set (calls_made example_collaborators (example_parameters 1 2) example_world)"
    by (simp add: example_calls_1_2)
  note t = sweep_index_sequences[where env = example_collaborators
      and p = "example_parameters 1 2" and w = example_world]
  from t have e: "\<exists>j k. j \<le> 1 \<and> k \<le> 2 \<and>
      sweep_indices True (calls_made example_collaborators (example_parameters 1 2) example_world)
        = [0..<j] \<and>
      sweep_indices False (calls_made example_collaborators (example_parameters 1 2) example_world)
        = [0..<k]"
    by (simp add: example_parameters_fields)
  from t h have
    "sweep_indices True (calls_made example_collaborators (example_parameters 1 2) example_world)
       = [0] \<and>
     sweep_indices False (calls_made example_collaborators (example_parameters 1 2) example_world)
       = [0, 1]"
    by (simp add: example_parameters_fields upt_rec)
  with e h show ?thesis by blast
qed



end
